theory Spec2Isabelle
  imports Main
begin

section \<open>P3 pixmap decoder and difference images (utility.py, ppmdiff.py)\<close>

text \<open>
  Text is a \<^typ>\<open>string\<close>: every character of the Python \<open>str\<close> is one \<^typ>\<open>char\<close>, read
  as a code point in the range U+0000 to U+00FF.  An input stream is the text that is still
  unread (after the newline translation of text mode); an output stream is the text written
  so far.  Python integers are \<^typ>\<open>int\<close>.
\<close>

subsection \<open>Data model (data.py)\<close>

text \<open>
  Modelled from the spec: data.py (the classes Header, Pixel, Image and the three exception
  classes) is not among the sources.  The spec gives Header the integer fields width, height
  and max_color, Pixel the integer fields red, green and blue, Image a header and an ordered
  sequence of pixels, and says that two Headers (two Pixels) are equal iff all three fields
  match, which is equality of records.  How a Pixel is rendered by \<open>'{}'.format(pixel)\<close> is
  not given anywhere, so the rendering is a parameter \<open>pstr\<close> of the functions that print one.
\<close>

record Header =
  width :: int
  height :: int
  max_color :: int

record Pixel =
  red :: int
  green :: int
  blue :: int

record Image =
  header :: Header
  pixels :: "Pixel list"

text \<open>
  The exceptions that the two modules can raise.  \<open>PartialPixelError\<close> and
  \<open>MalformedPixelError\<close> carry the message they are constructed with;
  \<open>ZeroDivisionError\<close> is what Python raises for \<open>//\<close> and \<open>%\<close> by zero.
\<close>

datatype py_error =
    P3InvalidHeaderError
  | PartialPixelError string
  | MalformedPixelError string
  | ZeroDivisionError

subsection \<open>Python built-ins used by the code\<close>

text \<open>\<open>str.isspace\<close> on the code points below 256.\<close>

definition is_space :: "char \<Rightarrow> bool" where
  "is_space c = ((of_char c :: nat) \<in> {9, 10, 11, 12, 13, 28, 29, 30, 31, 32, 133, 160})"

text \<open>\<open>str.strip()\<close> and \<open>str.split()\<close> without arguments.\<close>

definition py_strip :: "string \<Rightarrow> string" where
  "py_strip s = rev (dropWhile is_space (rev (dropWhile is_space s)))"

fun split_acc :: "string \<Rightarrow> string \<Rightarrow> string list" where
  "split_acc cur [] = (if cur = [] then [] else [cur])"
| "split_acc cur (c # cs) =
     (if is_space c then (if cur = [] then split_acc [] cs else cur # split_acc [] cs)
      else split_acc (cur @ [c]) cs)"

definition py_split :: "string \<Rightarrow> string list" where
  "py_split s = split_acc [] s"

text \<open>
  \<open>int(s)\<close> for a string, base ten.  Whitespace around the number is dropped; the
  whitespace of \<open>int\<close> is the ASCII whitespace of C (tab to carriage return, and space)
  and the whitespace above U+007F, but not the separators U+001C to U+001F, which
  \<open>str.isspace\<close> accepts.  Then come an optional sign and decimal digits, where single
  underscores may stand between two digits.  A number of more than \<open>MAX_STR_DIGITS\<close>
  digits (leading zeros counted, underscores not) is refused: this is the interpreter's
  default limit, \<open>sys.int_info.default_max_str_digits\<close>.  \<open>None\<close> is the \<open>ValueError\<close>.
\<close>

definition is_int_space :: "char \<Rightarrow> bool" where
  "is_int_space c = ((of_char c :: nat) \<in> {9, 10, 11, 12, 13, 32, 133, 160})"

definition int_strip :: "string \<Rightarrow> string" where
  "int_strip s = rev (dropWhile is_int_space (rev (dropWhile is_int_space s)))"

definition MAX_STR_DIGITS :: nat where
  "MAX_STR_DIGITS = 4300"

definition is_digit :: "char \<Rightarrow> bool" where
  "is_digit c = (48 \<le> (of_char c :: nat) \<and> (of_char c :: nat) \<le> 57)"

definition digit_val :: "char \<Rightarrow> nat" where
  "digit_val c = of_char c - 48"

fun parse_digits :: "nat \<Rightarrow> string \<Rightarrow> nat option" where
  "parse_digits acc [] = Some acc"
| "parse_digits acc [c] = (if is_digit c then Some (10 * acc + digit_val c) else None)"
| "parse_digits acc (c # d # ds) =
     (if is_digit c then parse_digits (10 * acc + digit_val c) (d # ds)
      else if c = CHR ''_'' \<and> is_digit d then parse_digits (10 * acc + digit_val d) ds
      else None)"

definition parse_unsigned :: "string \<Rightarrow> nat option" where
  "parse_unsigned s =
     (case s of [] \<Rightarrow> None
      | c # cs \<Rightarrow>
          if is_digit c then
            (if MAX_STR_DIGITS < length (filter is_digit s) then None
             else parse_digits (digit_val c) cs)
          else None)"

definition py_int :: "string \<Rightarrow> int option" where
  "py_int s =
     (case int_strip s of [] \<Rightarrow> None
      | c # cs \<Rightarrow>
          if c = CHR ''-'' then map_option (\<lambda>n. - int n) (parse_unsigned cs)
          else if c = CHR ''+'' then map_option int (parse_unsigned cs)
          else map_option int (parse_unsigned (c # cs)))"

text \<open>\<open>'{}'.format(i)\<close> for an integer: its decimal digits, with a minus sign if negative.\<close>

fun str_nat :: "nat \<Rightarrow> string" where
  "str_nat n =
     (if n < 10 then [''0123456789'' ! n]
      else str_nat (n div 10) @ [''0123456789'' ! (n mod 10)])"

declare str_nat.simps [simp del]

definition str_int :: "int \<Rightarrow> string" where
  "str_int i = (if i < 0 then CHR ''-'' # str_nat (nat (- i)) else str_nat (nat i))"

text \<open>
  \<open>a // b\<close> and \<open>a % b\<close> on integers.  Both round towards minus infinity, as \<open>div\<close> and
  \<open>mod\<close> on \<^typ>\<open>int\<close> do, and both raise for a zero divisor, where HOL returns a value.
\<close>

definition py_floordiv :: "int \<Rightarrow> int \<Rightarrow> py_error + int" where
  "py_floordiv a b = (if b = 0 then Inl ZeroDivisionError else Inr (a div b))"

definition py_mod :: "int \<Rightarrow> int \<Rightarrow> py_error + int" where
  "py_mod a b = (if b = 0 then Inl ZeroDivisionError else Inr (a mod b))"

text \<open>
  \<open>infile.readline()\<close>: the line read, with its newline if it has one, and the rest of the
  stream.  At the end of the stream the line is empty.
\<close>

fun readline :: "string \<Rightarrow> string \<times> string" where
  "readline [] = ([], [])"
| "readline (c # cs) =
     (if c = CHR ''\<newline>'' then ([c], cs)
      else (case readline cs of (l, r) \<Rightarrow> (c # l, r)))"

text \<open>\<open>print(s, file=out)\<close> and \<open>print(s, file=out, end='')\<close>.\<close>

definition print_line :: "string \<Rightarrow> string \<Rightarrow> string" where
  "print_line s out = out @ s @ ''\<newline>''"

definition print_noend :: "string \<Rightarrow> string \<Rightarrow> string" where
  "print_noend s out = out @ s"

subsection \<open>The decoder (utility.py)\<close>

definition MALFORMED_PIXEL :: "int \<Rightarrow> int \<Rightarrow> string" where
  "MALFORMED_PIXEL row col =
     ''invalid pixel at <row='' @ str_int row @ '', col='' @ str_int col @ ''>''"

definition PARTIAL_PIXEL :: "int \<Rightarrow> int \<Rightarrow> string" where
  "PARTIAL_PIXEL row col =
     ''partial pixel at <row='' @ str_int row @ '', col='' @ str_int col @ ''>''"

definition P3_ID :: string where
  "P3_ID = ''P3''"

definition convert_int :: "string \<Rightarrow> int option \<Rightarrow> int option" where
  "convert_int v dflt = (case py_int v of Some n \<Rightarrow> Some n | None \<Rightarrow> dflt)"

definition convert_dimensions :: "string \<Rightarrow> py_error + (int \<times> int)" where
  "convert_dimensions dimension_str =
     (let dim_list = py_split dimension_str in
      if length dim_list = 2 then
        (case convert_int (dim_list ! 0) None of
           None \<Rightarrow> Inl P3InvalidHeaderError
         | Some w \<Rightarrow>
             (case convert_int (dim_list ! 1) None of
                None \<Rightarrow> Inl P3InvalidHeaderError
              | Some h \<Rightarrow> Inr (w, h)))
      else Inl P3InvalidHeaderError)"

definition convert_color :: "string \<Rightarrow> py_error + int" where
  "convert_color color_str =
     (case convert_int color_str None of
        None \<Rightarrow> Inl P3InvalidHeaderError
      | Some m \<Rightarrow> Inr m)"

text \<open>\<open>_read_header\<close> returns the header and the stream after the three lines.\<close>

definition read_header :: "string \<Rightarrow> py_error + (Header \<times> string)" where
  "read_header infile =
     (case readline infile of (l1, s1) \<Rightarrow>
      case readline s1 of (l2, s2) \<Rightarrow>
      case readline s2 of (l3, s3) \<Rightarrow>
      let first = py_strip l1; second = py_strip l2; third = py_strip l3 in
      if first \<noteq> P3_ID \<or> second = [] \<or> third = [] then Inl P3InvalidHeaderError
      else
        (case convert_dimensions second of
           Inl e \<Rightarrow> Inl e
         | Inr (w, h) \<Rightarrow>
             (case convert_color third of
                Inl e \<Rightarrow> Inl e
              | Inr m \<Rightarrow> Inr (\<lparr>width = w, height = h, max_color = m\<rparr>, s3))))"

definition create_pixel :: "string list \<Rightarrow> int \<Rightarrow> int \<Rightarrow> py_error + Pixel" where
  "create_pixel vals row col =
     (if length vals < 3 then Inl (PartialPixelError (PARTIAL_PIXEL row col))
      else
        (case (convert_int (vals ! 0) None, convert_int (vals ! 1) None,
               convert_int (vals ! 2) None) of
           (Some r, Some g, Some b) \<Rightarrow> Inr \<lparr>red = r, green = g, blue = b\<rparr>
         | _ \<Rightarrow> Inl (MalformedPixelError (MALFORMED_PIXEL row col))))"

text \<open>\<open>[values[i:i + 3] for i in range(0, len(values), 3)]\<close>\<close>

definition groups_of_3 :: "'a list \<Rightarrow> 'a list list" where
  "groups_of_3 vals =
     map (\<lambda>k. take 3 (drop (3 * k) vals)) [0 ..< (length vals + 2) div 3]"

text \<open>
  The list comprehension of \<open>get_image\<close> over \<open>enumerate(groups)\<close>: the arguments
  \<open>idx // header.width\<close> and \<open>idx % header.width\<close> are evaluated before \<open>_create_pixel\<close> is
  called, and the first exception ends the comprehension.
\<close>

fun create_pixels :: "Header \<Rightarrow> (nat \<times> string list) list \<Rightarrow> py_error + Pixel list" where
  "create_pixels h [] = Inr []"
| "create_pixels h ((idx, grp) # rest) =
     (case py_floordiv (int idx) (width h) of
        Inl e \<Rightarrow> Inl e
      | Inr row \<Rightarrow>
          (case py_mod (int idx) (width h) of
             Inl e \<Rightarrow> Inl e
           | Inr col \<Rightarrow>
               (case create_pixel grp row col of
                  Inl e \<Rightarrow> Inl e
                | Inr p \<Rightarrow>
                    (case create_pixels h rest of
                       Inl e \<Rightarrow> Inl e
                     | Inr ps \<Rightarrow> Inr (p # ps)))))"

definition get_image :: "string \<Rightarrow> py_error + Image" where
  "get_image infile =
     (case read_header infile of
        Inl e \<Rightarrow> Inl e
      | Inr (h, rest) \<Rightarrow>
          (let contents = py_split rest in
           case create_pixels h (enumerate 0 (groups_of_3 contents)) of
             Inl e \<Rightarrow> Inl e
           | Inr ps \<Rightarrow> Inr \<lparr>header = h, pixels = ps\<rparr>))"

subsection \<open>The difference images (ppmdiff.py)\<close>

definition COLUMN_MISMATCH :: string where
  "COLUMN_MISMATCH = ''widths differ''"

definition ROW_MISMATCH :: string where
  "ROW_MISMATCH = ''heights differ''"

definition MAX_COLOR_MISMATCH :: string where
  "MAX_COLOR_MISMATCH = ''color max values differ''"

definition NO_MISMATCH :: string where
  "NO_MISMATCH = ''nothing differs''"

text \<open>The three streams that \<open>process_pixels\<close> writes to; \<open>err\<close> is \<open>sys.stderr\<close>.\<close>

record streams =
  out_digital :: string
  out_analog :: string
  err :: string

definition write_header :: "string \<Rightarrow> Header \<Rightarrow> string" where
  "write_header out h =
     print_line (str_int (max_color h) @ ''\<newline>'')
       (print_line (str_int (width h) @ '' '' @ str_int (height h) @ ''\<newline>'')
         (print_line ''P3\<newline>'' out))"

definition pixel_diff :: "Pixel \<Rightarrow> Pixel \<Rightarrow> Pixel" where
  "pixel_diff p1 p2 =
     \<lparr>red = \<bar>red p1 - red p2\<bar>, green = \<bar>green p1 - green p2\<bar>,
      blue = \<bar>blue p1 - blue p2\<bar>\<rparr>"

definition header_match_error :: "Header \<Rightarrow> Header \<Rightarrow> string" where
  "header_match_error h1 h2 =
     (if width h1 \<noteq> width h2 then COLUMN_MISMATCH
      else if height h1 \<noteq> height h2 then ROW_MISMATCH
      else if max_color h1 \<noteq> max_color h2 then MAX_COLOR_MISMATCH
      else NO_MISMATCH)"

text \<open>\<open>'{} {} {} '.format(a, b, c)\<close>\<close>

definition format3 :: "int \<Rightarrow> int \<Rightarrow> int \<Rightarrow> string" where
  "format3 a b c = str_int a @ '' '' @ str_int b @ '' '' @ str_int c @ '' ''"

text \<open>
  The loop of \<open>process_pixels\<close> over \<open>enumerate(zip(pixels1, pixels2))\<close>, with the flag
  \<open>differ\<close> and the streams as state.  An exception leaves the streams as they are at that
  moment: the message for \<open>sys.stderr\<close> is formatted before anything of the pair is printed.
\<close>

fun process_loop ::
  "(Pixel \<Rightarrow> string) \<Rightarrow> Header \<Rightarrow> (nat \<times> Pixel \<times> Pixel) list \<Rightarrow> bool \<Rightarrow> streams
     \<Rightarrow> streams \<times> (py_error + bool)" where
  "process_loop pstr h [] differ io = (io, Inr differ)"
| "process_loop pstr h ((idx, pixel1, pixel2) # rest) differ io =
     (if pixel1 = pixel2 then
        process_loop pstr h rest differ
          (io\<lparr>out_analog := print_line (format3 (max_color h) (max_color h) (max_color h))
                               (out_analog io),
              out_digital := print_line (format3 (max_color h) (max_color h) (max_color h))
                               (out_digital io)\<rparr>)
      else
        (let diff = pixel_diff pixel1 pixel2 in
         case py_floordiv (int idx) (width h) of
           Inl e \<Rightarrow> (io, Inl e)
         | Inr row \<Rightarrow>
             (case py_mod (int idx) (width h) of
                Inl e \<Rightarrow> (io, Inl e)
              | Inr col \<Rightarrow>
                  process_loop pstr h rest True
                    (io\<lparr>err :=
                          print_line (pstr pixel1 @ '' <-- --> '' @ pstr pixel2)
                            (print_noend
                               (''pixels at <row='' @ str_int row @ '', col='' @ str_int col
                                  @ ''> differ.  '')
                               (err io)),
                        out_analog :=
                          print_line
                            (format3 (max_color h - red diff) (max_color h - green diff)
                               (max_color h - blue diff))
                            (out_analog io),
                        out_digital := print_line ''0 0 0 '' (out_digital io)\<rparr>))))"

definition process_pixels ::
  "(Pixel \<Rightarrow> string) \<Rightarrow> Pixel list \<Rightarrow> Pixel list \<Rightarrow> streams \<Rightarrow> Header
     \<Rightarrow> streams \<times> (py_error + bool)" where
  "process_pixels pstr pixels1 pixels2 io h =
     process_loop pstr h (enumerate 0 (zip pixels1 pixels2)) False io"

definition generate_diffs ::
  "(Pixel \<Rightarrow> string) \<Rightarrow> Pixel list \<Rightarrow> Pixel list \<Rightarrow> streams \<Rightarrow> Header
     \<Rightarrow> streams \<times> (py_error + bool)" where
  "generate_diffs pstr pixels1 pixels2 io h =
     process_pixels pstr pixels1 pixels2
       (io\<lparr>out_digital := write_header (out_digital io) h,
           out_analog := write_header (out_analog io) h\<rparr>)
       h"

subsection \<open>Notions used to state the properties\<close>

text \<open>
  A group of tokens from which \<open>_create_pixel\<close> can build a pixel: three tokens, each of
  which \<open>int\<close> accepts.
\<close>

definition well_formed_group :: "string list \<Rightarrow> bool" where
  "well_formed_group g = (length g = 3 \<and> (\<forall>t \<in> set g. py_int t \<noteq> None))"


text \<open>
  One rendering of a pixel, in the usual style of \<open>__repr__\<close>.  The rendering of data.py is
  not known; this one only serves to run \<open>process_pixels\<close> on concrete pixels, and every
  statement below that is not such a run holds for any rendering \<open>pstr\<close>.
\<close>

definition pixel_repr :: "Pixel \<Rightarrow> string" where
  "pixel_repr p =
     ''Pixel('' @ str_int (red p) @ '', '' @ str_int (green p) @ '', '' @ str_int (blue p)
       @ '')''"

text \<open>The streams before anything is written.\<close>

definition no_output :: streams where
  "no_output = \<lparr>out_digital = [], out_analog = [], err = []\<rparr>"


section \<open>Properties of the difference images\<close>

subsection \<open>The loop of \<open>process_pixels\<close>\<close>





lemma process_loop_same:
  "process_loop pstr h (enumerate n (zip ps ps)) d io =
     (io\<lparr>out_analog :=
           out_analog io @
           concat (replicate (length ps)
                     (format3 (max_color h) (max_color h) (max_color h) @ ''\<newline>'')),
         out_digital :=
           out_digital io @
           concat (replicate (length ps)
                     (format3 (max_color h) (max_color h) (max_color h) @ ''\<newline>''))\<rparr>,
      Inr d)"
  by (induction ps arbitrary: n io) (simp_all add: print_line_def)



subsection \<open>The worked example\<close>

text \<open>
  Claim C1, as amended.  With the header width 2, height 1, max_color 255, the pixels
  (255,0,0), (0,255,0) against (255,0,0), (255,0,0): position 0 gives the white row
  \<open>255 255 255 \<close> on both outputs; position 1 gives the digital row \<open>0 0 0 \<close> and the analog
  row \<open>0 0 255 \<close> (the channel differences are 255, 255 and 0, each taken from 255), one
  diagnostic line for row 0, column 1, and the flag returned is true.
\<close>

theorem worked_example_diff:
  "process_pixels pstr
     [\<lparr>red = 255, green = 0, blue = 0\<rparr>, \<lparr>red = 0, green = 255, blue = 0\<rparr>]
     [\<lparr>red = 255, green = 0, blue = 0\<rparr>, \<lparr>red = 255, green = 0, blue = 0\<rparr>]
     no_output \<lparr>width = 2, height = 1, max_color = 255\<rparr> =
   (\<lparr>out_digital = ''255 255 255 \<newline>0 0 0 \<newline>'',
     out_analog = ''255 255 255 \<newline>0 0 255 \<newline>'',
     err = ''pixels at <row=0, col=1> differ.  '' @ pstr \<lparr>red = 0, green = 255, blue = 0\<rparr>
             @ '' <-- --> '' @ pstr \<lparr>red = 255, green = 0, blue = 0\<rparr> @ ''\<newline>''\<rparr>,
    Inr True)"
  by (simp add: process_pixels_def no_output_def enumerate_eq_zip upt_rec pixel_diff_def
        py_floordiv_def py_mod_def print_line_def print_noend_def format3_def str_int_def
        str_nat.simps)

text \<open>
  The analog output of the example is not the one with the row \<open>255 0 255 \<close> for position 1.
\<close>

theorem worked_example_analog_counterexample:
  "out_analog (fst (process_pixels pixel_repr
     [\<lparr>red = 255, green = 0, blue = 0\<rparr>, \<lparr>red = 0, green = 255, blue = 0\<rparr>]
     [\<lparr>red = 255, green = 0, blue = 0\<rparr>, \<lparr>red = 255, green = 0, blue = 0\<rparr>]
     no_output \<lparr>width = 2, height = 1, max_color = 255\<rparr>))
   \<noteq> ''255 255 255 \<newline>255 0 255 \<newline>''"
  by (simp add: process_pixels_def no_output_def enumerate_eq_zip upt_rec pixel_diff_def
        py_floordiv_def py_mod_def print_line_def print_noend_def format3_def str_int_def
        str_nat.simps)

subsection \<open>Diagnostics\<close>





subsection \<open>An image against itself\<close>

text \<open>
  Claim C7.  Diffing any pixel list against itself, under any header, returns the flag
  false, writes nothing to the diagnostic channel, and writes to the digital and to the
  analog output one row for each pixel and nothing else; every row is the decimal text of
  max_color three times, each followed by one space: \<open>{max_color} {max_color} {max_color} \<close>.
\<close>

theorem diff_with_itself:
  "process_pixels pstr ps ps io h =
     (io\<lparr>out_analog :=
           out_analog io @
           concat (replicate (length ps)
                     (str_int (max_color h) @ '' '' @ str_int (max_color h) @ '' ''
                        @ str_int (max_color h) @ '' '' @ ''\<newline>'')),
         out_digital :=
           out_digital io @
           concat (replicate (length ps)
                     (str_int (max_color h) @ '' '' @ str_int (max_color h) @ '' ''
                        @ str_int (max_color h) @ '' '' @ ''\<newline>''))\<rparr>,
      Inr False)"
  by (simp add: process_pixels_def process_loop_same format3_def)

text \<open>
  Three pixels against themselves with max_color 255, on streams that already hold text:
  three rows \<open>255 255 255 \<close> are appended to each output, nothing to the diagnostics.
\<close>

theorem diff_with_itself_witness:
  "process_pixels pixel_repr
     [\<lparr>red = 255, green = 0, blue = 0\<rparr>, \<lparr>red = 0, green = 255, blue = 0\<rparr>,
      \<lparr>red = 12, green = 999, blue = - 3\<rparr>]
     [\<lparr>red = 255, green = 0, blue = 0\<rparr>, \<lparr>red = 0, green = 255, blue = 0\<rparr>,
      \<lparr>red = 12, green = 999, blue = - 3\<rparr>]
     \<lparr>out_digital = ''d'', out_analog = ''a'', err = ''e''\<rparr>
     \<lparr>width = 0, height = 1, max_color = 255\<rparr> =
   (\<lparr>out_digital = ''d255 255 255 \<newline>255 255 255 \<newline>255 255 255 \<newline>'',
     out_analog = ''a255 255 255 \<newline>255 255 255 \<newline>255 255 255 \<newline>'',
     err = ''e''\<rparr>,
    Inr False)"
  using diff_with_itself [of pixel_repr
     "[\<lparr>red = 255, green = 0, blue = 0\<rparr>, \<lparr>red = 0, green = 255, blue = 0\<rparr>,
       \<lparr>red = 12, green = 999, blue = - 3\<rparr>]"
     "\<lparr>out_digital = ''d'', out_analog = ''a'', err = ''e''\<rparr>"
     "\<lparr>width = 0, height = 1, max_color = 255\<rparr>"]
  by (simp add: str_int_def str_nat.simps)

subsection \<open>The digital image\<close>



subsection \<open>Pixel difference\<close>

text \<open>
  Claim C9.  The pixel difference is symmetric: \<open>pixel_diff(p1, p2)\<close> equals
  \<open>pixel_diff(p2, p1)\<close> for all pixels.
\<close>

theorem pixel_diff_symmetric:
  "pixel_diff p1 p2 = pixel_diff p2 p1"
  by (simp add: pixel_diff_def abs_minus_commute)

subsection \<open>Pixel lists of unequal length\<close>



subsection \<open>Header compatibility\<close>

text \<open>
  Claim C5.  \<open>header_match_error\<close> reports exactly one of four distinct reasons, chosen by
  priority: the width reason if the widths differ, whatever the other fields are; otherwise
  the height reason if the heights differ; otherwise the max-colour reason if the max_color
  values differ; otherwise "nothing differs".
\<close>

theorem header_match_error_priority:
  "(width h1 \<noteq> width h2 \<longrightarrow> header_match_error h1 h2 = COLUMN_MISMATCH)
   \<and> (width h1 = width h2 \<and> height h1 \<noteq> height h2 \<longrightarrow>
        header_match_error h1 h2 = ROW_MISMATCH)
   \<and> (width h1 = width h2 \<and> height h1 = height h2 \<and> max_color h1 \<noteq> max_color h2 \<longrightarrow>
        header_match_error h1 h2 = MAX_COLOR_MISMATCH)
   \<and> (width h1 = width h2 \<and> height h1 = height h2 \<and> max_color h1 = max_color h2 \<longrightarrow>
        header_match_error h1 h2 = NO_MISMATCH)
   \<and> distinct [COLUMN_MISMATCH, ROW_MISMATCH, MAX_COLOR_MISMATCH, NO_MISMATCH]"
  by (simp add: header_match_error_def COLUMN_MISMATCH_def ROW_MISMATCH_def
        MAX_COLOR_MISMATCH_def NO_MISMATCH_def)

theorem header_match_error_priority_witness:
  "header_match_error \<lparr>width = 2, height = 3, max_color = 255\<rparr>
     \<lparr>width = 4, height = 5, max_color = 15\<rparr> = ''widths differ''
   \<and> header_match_error \<lparr>width = 2, height = 3, max_color = 255\<rparr>
       \<lparr>width = 2, height = 5, max_color = 15\<rparr> = ''heights differ''
   \<and> header_match_error \<lparr>width = 2, height = 3, max_color = 255\<rparr>
       \<lparr>width = 2, height = 3, max_color = 15\<rparr> = ''color max values differ''
   \<and> header_match_error \<lparr>width = 2, height = 3, max_color = 255\<rparr>
       \<lparr>width = 2, height = 3, max_color = 255\<rparr> = ''nothing differs''"
  using header_match_error_priority
          [of "\<lparr>width = 2, height = 3, max_color = 255\<rparr>"
              "\<lparr>width = 4, height = 5, max_color = 15\<rparr>"]
        header_match_error_priority
          [of "\<lparr>width = 2, height = 3, max_color = 255\<rparr>"
              "\<lparr>width = 2, height = 5, max_color = 15\<rparr>"]
        header_match_error_priority
          [of "\<lparr>width = 2, height = 3, max_color = 255\<rparr>"
              "\<lparr>width = 2, height = 3, max_color = 15\<rparr>"]
        header_match_error_priority
          [of "\<lparr>width = 2, height = 3, max_color = 255\<rparr>"
              "\<lparr>width = 2, height = 3, max_color = 255\<rparr>"]
  by (simp add: COLUMN_MISMATCH_def ROW_MISMATCH_def MAX_COLOR_MISMATCH_def NO_MISMATCH_def)


section \<open>Properties of the decoder\<close>

subsection \<open>The digit limit of \<open>int\<close>\<close>

lemma parse_unsigned_digit_limit:
  "MAX_STR_DIGITS < length (filter is_digit s) \<Longrightarrow> parse_unsigned s = None"
  by (cases s) (auto simp add: parse_unsigned_def)

subsection \<open>Groups of tokens\<close>

lemma groups_of_3_length_le: "g \<in> set (groups_of_3 v) \<Longrightarrow> length g \<le> 3"
  by (auto simp add: groups_of_3_def)

lemma groups_of_3_empty: "(groups_of_3 v = []) = (v = [])"
proof -
  have "((length v + 2) div 3 = 0) = (length v = 0)"
    by arith
  then show ?thesis
    by (simp add: groups_of_3_def)
qed

lemma length_3_cases: "length g = 3 \<Longrightarrow> \<exists>a b c. g = [a, b, c]"
  by (auto simp add: length_Suc_conv numeral_3_eq_3)

lemma create_pixel_short:
  "length g < 3 \<Longrightarrow> create_pixel g r c = Inl (PartialPixelError (PARTIAL_PIXEL r c))"
  by (simp add: create_pixel_def)

lemma create_pixel_well_formed:
  assumes "well_formed_group g"
  shows "\<exists>p. create_pixel g r c = Inr p"
proof -
  from assms have "length g = 3"
    by (simp add: well_formed_group_def)
  then obtain x y z where g: "g = [x, y, z]"
    using length_3_cases by blast
  with assms show ?thesis
    by (auto simp add: well_formed_group_def create_pixel_def convert_int_def)
qed

lemma create_pixel_malformed:
  assumes "length g = 3" and "\<not> well_formed_group g"
  shows "create_pixel g r c = Inl (MalformedPixelError (MALFORMED_PIXEL r c))"
proof -
  from assms(1) obtain x y z where g: "g = [x, y, z]"
    using length_3_cases by blast
  with assms(2) show ?thesis
    by (auto simp add: well_formed_group_def create_pixel_def convert_int_def
          split: option.splits)
qed

lemma create_pixel_outcomes:
  "(\<exists>p. create_pixel g r c = Inr p)
   \<or> create_pixel g r c = Inl (PartialPixelError (PARTIAL_PIXEL r c))
   \<or> create_pixel g r c = Inl (MalformedPixelError (MALFORMED_PIXEL r c))"
  by (simp add: create_pixel_def split: option.splits)

subsection \<open>The comprehension over the groups\<close>

lemma create_pixels_zero_width:
  assumes "width h = 0" and "xs \<noteq> []"
  shows "create_pixels h xs = Inl ZeroDivisionError"
proof -
  from assms(2) obtain idx g rest where "xs = (idx, g) # rest"
    by (cases xs) auto
  with assms(1) show ?thesis
    by (simp add: py_floordiv_def)
qed

lemma create_pixels_outcomes:
  "width h \<noteq> 0 \<Longrightarrow>
   (\<exists>ps. create_pixels h xs = Inr ps)
   \<or> (\<exists>r c. create_pixels h xs = Inl (PartialPixelError (PARTIAL_PIXEL r c)))
   \<or> (\<exists>r c. create_pixels h xs = Inl (MalformedPixelError (MALFORMED_PIXEL r c)))"
proof (induction xs)
  case Nil
  show ?case by simp
next
  case (Cons x xs)
  obtain idx g where x: "x = (idx, g)"
    by (cases x) auto
  let ?r = "int idx div width h" and ?c = "int idx mod width h"
  consider (ok) p where "create_pixel g ?r ?c = Inr p"
    | (partial) "create_pixel g ?r ?c = Inl (PartialPixelError (PARTIAL_PIXEL ?r ?c))"
    | (malformed) "create_pixel g ?r ?c = Inl (MalformedPixelError (MALFORMED_PIXEL ?r ?c))"
    using create_pixel_outcomes [of g ?r ?c] by blast
  then show ?case
  proof cases
    case ok
    from Cons.IH [OF Cons.prems] show ?thesis
    proof (elim disjE exE)
      fix ps assume "create_pixels h xs = Inr ps"
      with ok Cons.prems x show ?thesis
        by (simp add: py_floordiv_def py_mod_def)
    next
      fix r c assume "create_pixels h xs = Inl (PartialPixelError (PARTIAL_PIXEL r c))"
      with ok Cons.prems x
      have "create_pixels h (x # xs) = Inl (PartialPixelError (PARTIAL_PIXEL r c))"
        by (simp add: py_floordiv_def py_mod_def)
      then show ?thesis by blast
    next
      fix r c assume "create_pixels h xs = Inl (MalformedPixelError (MALFORMED_PIXEL r c))"
      with ok Cons.prems x
      have "create_pixels h (x # xs) = Inl (MalformedPixelError (MALFORMED_PIXEL r c))"
        by (simp add: py_floordiv_def py_mod_def)
      then show ?thesis by blast
    qed
  next
    case partial
    with Cons.prems x
    have "create_pixels h (x # xs) = Inl (PartialPixelError (PARTIAL_PIXEL ?r ?c))"
      by (simp add: py_floordiv_def py_mod_def)
    then show ?thesis by blast
  next
    case malformed
    with Cons.prems x
    have "create_pixels h (x # xs) = Inl (MalformedPixelError (MALFORMED_PIXEL ?r ?c))"
      by (simp add: py_floordiv_def py_mod_def)
    then show ?thesis by blast
  qed
qed

lemma create_pixels_first_bad:
  assumes "width h \<noteq> 0"
  shows "\<forall>g \<in> set gs. length g \<le> 3 \<Longrightarrow> idx < length gs \<Longrightarrow>
         \<forall>k<idx. well_formed_group (gs ! k) \<Longrightarrow> \<not> well_formed_group (gs ! idx) \<Longrightarrow>
         create_pixels h (enumerate n gs) =
           Inl (if length (gs ! idx) < 3
                then PartialPixelError
                       (PARTIAL_PIXEL (int (n + idx) div width h) (int (n + idx) mod width h))
                else MalformedPixelError
                       (MALFORMED_PIXEL (int (n + idx) div width h)
                          (int (n + idx) mod width h)))"
proof (induction gs arbitrary: n idx)
  case Nil
  then show ?case by simp
next
  case (Cons g gs)
  show ?case
  proof (cases idx)
    case 0
    show ?thesis
    proof (cases "length g < 3")
      case True
      with 0 assms show ?thesis
        by (simp add: py_floordiv_def py_mod_def create_pixel_short)
    next
      case False
      with Cons.prems(1) have "length g = 3" by simp
      with 0 assms Cons.prems(4) show ?thesis
        by (simp add: py_floordiv_def py_mod_def create_pixel_malformed)
    qed
  next
    case (Suc j)
    from Cons.prems(3) Suc have "well_formed_group g" by auto
    then obtain p where p: "create_pixel g (int n div width h) (int n mod width h) = Inr p"
      using create_pixel_well_formed by blast
    have ih: "create_pixels h (enumerate (Suc n) gs) =
           Inl (if length (gs ! j) < 3
                then PartialPixelError
                       (PARTIAL_PIXEL (int (Suc n + j) div width h)
                          (int (Suc n + j) mod width h))
                else MalformedPixelError
                       (MALFORMED_PIXEL (int (Suc n + j) div width h)
                          (int (Suc n + j) mod width h)))"
    proof (rule Cons.IH)
      show "\<forall>g \<in> set gs. length g \<le> 3" using Cons.prems(1) by simp
      show "j < length gs" using Cons.prems(2) Suc by simp
      show "\<forall>k<j. well_formed_group (gs ! k)" using Cons.prems(3) Suc by auto
      show "\<not> well_formed_group (gs ! j)" using Cons.prems(4) Suc by simp
    qed
    from assms p ih Suc show ?thesis
      by (simp add: py_floordiv_def py_mod_def)
  qed
qed

subsection \<open>Outcomes of \<open>get_image\<close>\<close>

lemma convert_dimensions_outcomes:
  "(\<exists>w h. convert_dimensions s = Inr (w, h)) \<or> convert_dimensions s = Inl P3InvalidHeaderError"
  by (simp add: convert_dimensions_def Let_def split: option.splits)

lemma convert_color_outcomes:
  "(\<exists>m. convert_color s = Inr m) \<or> convert_color s = Inl P3InvalidHeaderError"
  by (simp add: convert_color_def split: option.splits)

lemma read_header_outcomes:
  "(\<exists>h rest. read_header infile = Inr (h, rest)) \<or> read_header infile = Inl P3InvalidHeaderError"
proof -
  obtain l1 s1 where r1: "readline infile = (l1, s1)" by (cases "readline infile")
  obtain l2 s2 where r2: "readline s1 = (l2, s2)" by (cases "readline s1")
  obtain l3 s3 where r3: "readline s2 = (l3, s3)" by (cases "readline s2")
  from convert_dimensions_outcomes [of "py_strip l2"] convert_color_outcomes [of "py_strip l3"]
  show ?thesis
    by (auto simp add: read_header_def r1 r2 r3 Let_def)
qed

lemma get_image_outcomes:
  "(\<exists>img. get_image infile = Inr img)
   \<or> get_image infile = Inl P3InvalidHeaderError
   \<or> (\<exists>r c. get_image infile = Inl (PartialPixelError (PARTIAL_PIXEL r c)))
   \<or> (\<exists>r c. get_image infile = Inl (MalformedPixelError (MALFORMED_PIXEL r c)))
   \<or> get_image infile = Inl ZeroDivisionError"
proof -
  from read_header_outcomes [of infile] show ?thesis
  proof
    assume "\<exists>h rest. read_header infile = Inr (h, rest)"
    then obtain h rest where rh: "read_header infile = Inr (h, rest)"
      by blast
    let ?xs = "enumerate 0 (groups_of_3 (py_split rest))"
    have gi: "get_image infile =
        (case create_pixels h ?xs of
           Inl e \<Rightarrow> Inl e
         | Inr ps \<Rightarrow> Inr \<lparr>header = h, pixels = ps\<rparr>)"
      by (simp add: get_image_def rh)
    show ?thesis
    proof (cases "width h = 0")
      case True
      show ?thesis
      proof (cases "py_split rest = []")
        case True
        then have "?xs = []"
          by (simp add: groups_of_3_def)
        then have "get_image infile = Inr \<lparr>header = h, pixels = []\<rparr>"
          unfolding gi by simp
        then show ?thesis by blast
      next
        case False
        then have "length (groups_of_3 (py_split rest)) \<noteq> 0"
          by (simp add: groups_of_3_empty)
        then have "length ?xs \<noteq> 0"
          by simp
        then have "?xs \<noteq> []"
          by (metis list.size(3))
        with True have "create_pixels h ?xs = Inl ZeroDivisionError"
          by (rule create_pixels_zero_width)
        then have "get_image infile = Inl ZeroDivisionError"
          unfolding gi by simp
        then show ?thesis by blast
      qed
    next
      case False
      from create_pixels_outcomes [OF False, of ?xs] show ?thesis
      proof (elim disjE exE)
        fix ps assume "create_pixels h ?xs = Inr ps"
        then have "get_image infile = Inr \<lparr>header = h, pixels = ps\<rparr>"
          unfolding gi by simp
        then show ?thesis by blast
      next
        fix r c assume "create_pixels h ?xs = Inl (PartialPixelError (PARTIAL_PIXEL r c))"
        then have "get_image infile = Inl (PartialPixelError (PARTIAL_PIXEL r c))"
          unfolding gi by simp
        then show ?thesis by blast
      next
        fix r c assume "create_pixels h ?xs = Inl (MalformedPixelError (MALFORMED_PIXEL r c))"
        then have "get_image infile = Inl (MalformedPixelError (MALFORMED_PIXEL r c))"
          unfolding gi by simp
        then show ?thesis by blast
      qed
    qed
  next
    assume "read_header infile = Inl P3InvalidHeaderError"
    then have "get_image infile = Inl P3InvalidHeaderError"
      by (simp add: get_image_def)
    then show ?thesis by blast
  qed
qed

text \<open>
  Claim C3.  The claim allows \<open>get_image\<close> three kinds of failure.  The code has a fourth:
  a header whose width is 0 is accepted by \<open>_read_header\<close>, and the first group of pixel
  tokens then makes \<open>idx // header.width\<close> raise \<open>ZeroDivisionError\<close>, which is none of the
  three kinds and which \<open>main\<close> does not catch.  Here the code is run on the stream
  \<open>P3 / 0 1 / 255 / 1 2 3\<close>.
\<close>

theorem get_image_zero_width_raises:
  "get_image ''P3\<newline>0 1\<newline>255\<newline>1 2 3\<newline>'' = Inl ZeroDivisionError"
  by code_simp

subsection \<open>The decoded header\<close>

text \<open>
  Claim C4, as amended.  After a successful decode the first line, stripped, is \<open>P3\<close>; the
  second line, stripped, splits into exactly two tokens, and the width and the height of
  the header are the integers that \<open>int\<close> reads from them; max_color is the integer that
  \<open>int\<close> reads from the third line, stripped.  The decoder puts no condition on the sign of
  the three values.
\<close>

theorem decoded_header_fields:
  assumes "get_image infile = Inr img"
    and "readline infile = (l1, s1)" and "readline s1 = (l2, s2)"
    and "readline s2 = (l3, s3)"
  shows "py_strip l1 = ''P3''
         \<and> (\<exists>w h. py_split (py_strip l2) = [w, h]
                \<and> py_int w = Some (width (header img))
                \<and> py_int h = Some (height (header img)))
         \<and> py_int (py_strip l3) = Some (max_color (header img))"
proof -
  from assms(1) obtain rest where rh: "read_header infile = Inr (header img, rest)"
    by (auto simp add: get_image_def Let_def split: sum.splits prod.splits)
  have rh_eq: "read_header infile =
     (if py_strip l1 \<noteq> P3_ID \<or> py_strip l2 = [] \<or> py_strip l3 = []
      then Inl P3InvalidHeaderError
      else (case convert_dimensions (py_strip l2) of
              Inl e \<Rightarrow> Inl e
            | Inr (w, h) \<Rightarrow>
                (case convert_color (py_strip l3) of
                   Inl e \<Rightarrow> Inl e
                 | Inr m \<Rightarrow> Inr (\<lparr>width = w, height = h, max_color = m\<rparr>, s3))))"
    by (simp add: read_header_def assms(2-4) Let_def)
  from rh have first: "py_strip l1 = ''P3''"
    unfolding rh_eq by (simp add: P3_ID_def split: if_splits)
  from rh obtain w h m where dims: "convert_dimensions (py_strip l2) = Inr (w, h)"
    and col: "convert_color (py_strip l3) = Inr m"
    and hd: "header img = \<lparr>width = w, height = h, max_color = m\<rparr>"
    unfolding rh_eq by (auto split: if_splits sum.splits prod.splits)
  from dims have len: "length (py_split (py_strip l2)) = 2"
    and w: "py_int (py_split (py_strip l2) ! 0) = Some w"
    and h: "py_int (py_split (py_strip l2) ! 1) = Some h"
    by (auto simp add: convert_dimensions_def convert_int_def Let_def
          split: if_splits option.splits)
  from len have "py_split (py_strip l2) = [py_split (py_strip l2) ! 0, py_split (py_strip l2) ! 1]"
    by (auto simp add: length_Suc_conv numeral_2_eq_2)
  with w h have "\<exists>a b. py_split (py_strip l2) = [a, b] \<and> py_int a = Some w \<and> py_int b = Some h"
    by blast
  moreover from col have "py_int (py_strip l3) = Some m"
    by (auto simp add: convert_color_def convert_int_def split: option.splits)
  ultimately show ?thesis
    using first hd by simp
qed

theorem decoded_header_fields_witness:
  "get_image ''P3\<newline>-2 0\<newline>-1\<newline>'' =
     Inr \<lparr>header = \<lparr>width = - 2, height = 0, max_color = - 1\<rparr>, pixels = []\<rparr>
   \<and> (\<exists>w h. py_split (py_strip ''-2 0\<newline>'') = [w, h]
          \<and> py_int w = Some (- 2) \<and> py_int h = Some 0)
   \<and> py_int (py_strip ''-1\<newline>'') = Some (- 1)"
proof -
  have g: "get_image ''P3\<newline>-2 0\<newline>-1\<newline>'' =
     Inr \<lparr>header = \<lparr>width = - 2, height = 0, max_color = - 1\<rparr>, pixels = []\<rparr>"
    by code_simp
  have r1: "readline ''P3\<newline>-2 0\<newline>-1\<newline>'' = (''P3\<newline>'', ''-2 0\<newline>-1\<newline>'')"
    by simp
  have r2: "readline ''-2 0\<newline>-1\<newline>'' = (''-2 0\<newline>'', ''-1\<newline>'')"
    by simp
  have r3: "readline ''-1\<newline>'' = (''-1\<newline>'', [])"
    by simp
  from decoded_header_fields [OF g r1 r2 r3] g show ?thesis
    by simp
qed

text \<open>
  A stream that decodes to a header with a negative width, height 0 and a negative
  max_color.
\<close>

theorem decoded_header_sign_counterexample:
  "get_image ''P3\<newline>-2 0\<newline>-1\<newline>'' =
     Inr \<lparr>header = \<lparr>width = - 2, height = 0, max_color = - 1\<rparr>, pixels = []\<rparr>
   \<and> \<not> (0 < width \<lparr>width = - 2, height = 0, max_color = - 1\<rparr>
        \<and> 0 < height \<lparr>width = - 2, height = 0, max_color = - 1\<rparr>
        \<and> 0 \<le> max_color \<lparr>width = - 2, height = 0, max_color = - 1\<rparr>)"
proof
  show "get_image ''P3\<newline>-2 0\<newline>-1\<newline>'' =
     Inr \<lparr>header = \<lparr>width = - 2, height = 0, max_color = - 1\<rparr>, pixels = []\<rparr>"
    by code_simp
  show "\<not> (0 < width \<lparr>width = - 2, height = 0, max_color = - 1\<rparr>
        \<and> 0 < height \<lparr>width = - 2, height = 0, max_color = - 1\<rparr>
        \<and> 0 \<le> max_color \<lparr>width = - 2, height = 0, max_color = - 1\<rparr>)"
    by simp
qed

subsection \<open>Errors of the pixel stream\<close>

text \<open>
  Claim C6, as amended.  When the declared width is not zero, the decode fails at the first
  group, at position \<open>idx\<close> among the groups of three, that is not three tokens which all
  parse as integers: with \<open>PartialPixelError\<close> for \<open>(idx // width, idx % width)\<close> if the group
  has fewer than three tokens, whether or not its tokens parse, and otherwise with
  \<open>MalformedPixelError\<close> for \<open>(idx // width, idx % width)\<close>.  Row and column come from the
  index of the group and the declared width only.
\<close>

theorem first_bad_group_decides:
  assumes "read_header infile = Inr (h, rest)" and "width h \<noteq> 0"
    and "idx < length (groups_of_3 (py_split rest))"
    and "\<forall>k<idx. well_formed_group (groups_of_3 (py_split rest) ! k)"
    and "\<not> well_formed_group (groups_of_3 (py_split rest) ! idx)"
  shows "get_image infile =
           Inl (if length (groups_of_3 (py_split rest) ! idx) < 3
                then PartialPixelError
                       (PARTIAL_PIXEL (int idx div width h) (int idx mod width h))
                else MalformedPixelError
                       (MALFORMED_PIXEL (int idx div width h) (int idx mod width h)))"
proof -
  have "\<forall>g \<in> set (groups_of_3 (py_split rest)). length g \<le> 3"
    using groups_of_3_length_le by blast
  from create_pixels_first_bad [OF assms(2) this assms(3) assms(4) assms(5), of 0]
  show ?thesis using assms(1) by (simp add: get_image_def)
qed

theorem first_bad_group_decides_witness:
  "get_image ''P3\<newline>2 2\<newline>255\<newline>1 2 3 4 5 6 x y'' =
     Inl (PartialPixelError (PARTIAL_PIXEL 1 0))"
proof -
  have rh: "read_header ''P3\<newline>2 2\<newline>255\<newline>1 2 3 4 5 6 x y'' =
              Inr (\<lparr>width = 2, height = 2, max_color = 255\<rparr>, ''1 2 3 4 5 6 x y'')"
    by code_simp
  have gs: "groups_of_3 (py_split ''1 2 3 4 5 6 x y'') =
              [[''1'', ''2'', ''3''], [''4'', ''5'', ''6''], [''x'', ''y'']]"
    by code_simp
  have w1: "well_formed_group [''1'', ''2'', ''3'']" by code_simp
  have w2: "well_formed_group [''4'', ''5'', ''6'']" by code_simp
  have w3: "\<not> well_formed_group [''x'', ''y'']" by code_simp
  have a: "\<forall>k<2. well_formed_group (groups_of_3 (py_split ''1 2 3 4 5 6 x y'') ! k)"
    using w1 w2 by (simp add: gs less_Suc_eq numeral_2_eq_2)
  from first_bad_group_decides [OF rh _ _ a, simplified gs] w3
  show ?thesis by simp
qed

text \<open>
  A stream whose last group has two tokens and whose first group has a token that is not
  an integer: the decode fails for the first group, not with the partial-pixel error of
  the last one.
\<close>

theorem later_partial_group_counterexample:
  "groups_of_3 (py_split ''1 x 3 4 5'') ! 1 = [''4'', ''5'']
   \<and> get_image ''P3\<newline>2 1\<newline>255\<newline>1 x 3 4 5'' =
       Inl (MalformedPixelError (MALFORMED_PIXEL 0 0))
   \<and> get_image ''P3\<newline>2 1\<newline>255\<newline>1 x 3 4 5'' \<noteq>
       Inl (PartialPixelError (PARTIAL_PIXEL (1 div 2) (1 mod 2)))"
  by code_simp


end
